theory Spec2Isabelle
  imports Main
begin

section \<open>Python values and effects\<close>

text \<open>
  The program is one Python module, \<^verbatim>\<open>app.py\<close>. Python \<^verbatim>\<open>str\<close> values are modelled
  as \<^typ>\<open>string\<close>, holding the UTF-8 bytes of the text; a value that may be \<^verbatim>\<open>None\<close>
  is an \<^typ>\<open>'a option\<close>.

  An exception object that is an instance of \<^verbatim>\<open>Exception\<close> is its class name and the
  text \<^verbatim>\<open>str(e)\<close>. What a function raises is either such an exception or the
  \<^verbatim>\<open>SystemExit\<close> of \<^verbatim>\<open>sys.exit(n)\<close>, which no \<^verbatim>\<open>except Exception\<close> clause
  catches. The libraries the module calls (the operating system, the analyzer
  process, the XML parser, the model runtime, the telemetry client) raise instances
  of \<^verbatim>\<open>Exception\<close>.
\<close>

datatype exc = Exc (exc_cls: string) (exc_str: string)

datatype raised = SystemExit nat | Exception exc

text \<open>
  The \<^verbatim>\<open>name\<close> attribute of an uploaded file object. The module tests
  \<^verbatim>\<open>isinstance(file_obj.name, str)\<close>, so both cases are inputs it expects. A name that
  is not a \<^verbatim>\<open>str\<close> carries the exception that \<^verbatim>\<open>name.endswith(".c")\<close> raises on it.
\<close>

datatype pyname = StrName string | OtherName exc

text \<open>
  The uploaded file object: its \<^verbatim>\<open>name\<close>, and what
  \<^verbatim>\<open>file_obj.seek(0); file_obj.read().decode()\<close> gives.
\<close>

record upload =
  obj_name :: pyname
  obj_read :: "exc + string"

text \<open>
  An element of the parsed report, as \<^verbatim>\<open>xml.etree.ElementTree\<close> holds it: tag,
  attributes, children in document order.
\<close>

datatype xml = Element (tag: string) (attrib: "(string \<times> string) list") (children: "xml list")

text \<open>The result of \<^verbatim>\<open>subprocess.run\<close>, and the model runtime's response
  (the \<^verbatim>\<open>"text"\<close> of each entry of \<^verbatim>\<open>"choices"\<close>, in order).\<close>

record completed_process =
  returncode :: int
  stdout_text :: string
  stderr_text :: string

datatype completion = Completion (choices: "string list")

text \<open>
  Everything outside the module is a parameter: the environment answers the calls
  the module makes to its collaborators.
\<close>

record env =
  getenv :: "string \<Rightarrow> string option"
  path_exists :: "string \<Rightarrow> bool"
  which :: "string \<Rightarrow> string option"
  wandb_login :: "string \<Rightarrow> exc option"
  wandb_init :: "exc option"
  wandb_log :: "string \<Rightarrow> string \<Rightarrow> exc option"
  Llama :: "string \<Rightarrow> nat \<Rightarrow> int \<Rightarrow> exc option"
  llm :: "string \<Rightarrow> nat \<Rightarrow> string list \<Rightarrow> bool \<Rightarrow> exc + completion"
  open_read :: "string \<Rightarrow> exc + string"
  tmp_stem :: "nat \<Rightarrow> string"
  subprocess_run :: "string list \<Rightarrow> (string \<rightharpoonup> string) \<Rightarrow> exc + completed_process"
  ET_parse :: "string \<Rightarrow> exc + xml"

text \<open>
  The state the module changes: the files it has created (path to content), the
  number of temporary names handed out, the analyzer commands run, the prompts sent
  to the model, the telemetry records, and the lines printed.
\<close>

record world =
  files :: "string \<rightharpoonup> string"
  tmp_count :: nat
  analyzer_runs :: "string list list"
  llm_calls :: "string list"
  wandb_logged :: "(string \<times> string) list"
  stdout :: "string list"
  stderr :: "string list"

definition print_stdout :: "string \<Rightarrow> world \<Rightarrow> world" where
  "print_stdout s w = w\<lparr>stdout := stdout w @ [s]\<rparr>"

definition print_stderr :: "string \<Rightarrow> world \<Rightarrow> world" where
  "print_stderr s w = w\<lparr>stderr := stderr w @ [s]\<rparr>"

subsection \<open>String operations of Python\<close>

definition NL :: string where
  "NL = [CHR 0x0A]"

definition endswith :: "string \<Rightarrow> string \<Rightarrow> bool" where
  "endswith s suffix =
     (length suffix \<le> length s \<and> drop (length s - length suffix) s = suffix)"

definition startswith :: "string \<Rightarrow> string \<Rightarrow> bool" where
  "startswith s prefix = (take (length prefix) s = prefix)"

text \<open>\<^verbatim>\<open>sub in s\<close> on strings.\<close>

fun is_in :: "string \<Rightarrow> string \<Rightarrow> bool" where
  "is_in sub [] = (sub = [])"
| "is_in sub (c # cs) = (startswith (c # cs) sub \<or> is_in sub cs)"

text \<open>\<^verbatim>\<open>sep.join(xs)\<close>.\<close>

fun join :: "string \<Rightarrow> string list \<Rightarrow> string" where
  "join sep [] = []"
| "join sep [x] = x"
| "join sep (x # y # ys) = x @ sep @ join sep (y # ys)"

text \<open>
  \<^verbatim>\<open>s.strip()\<close>. The whitespace characters below are the ASCII ones; the only string
  the module strips begins and ends with an ASCII newline next to a bracket.
\<close>

definition isspace :: "char \<Rightarrow> bool" where
  "isspace c = (c \<in> set [CHR 0x20, CHR 0x09, CHR 0x0A, CHR 0x0B, CHR 0x0C, CHR 0x0D,
                           CHR 0x1C, CHR 0x1D, CHR 0x1E, CHR 0x1F])"

definition strip :: "string \<Rightarrow> string" where
  "strip s = rev (dropWhile isspace (rev (dropWhile isspace s)))"

text \<open>An optional string inside an f-string: \<^verbatim>\<open>None\<close> prints as the word.\<close>

definition pyformat :: "string option \<Rightarrow> string" where
  "pyformat v = (case v of None \<Rightarrow> ''None'' | Some s \<Rightarrow> s)"

section \<open>Module start\<close>

definition LOCAL_MODEL_PATH :: string where
  "LOCAL_MODEL_PATH = ''/app/codellama-7b-instruct.Q4_K_M.gguf''"

datatype startup_outcome = Serving | Terminated raised

text \<open>
  The statements the module runs when it is loaded, followed by \<^verbatim>\<open>main()\<close>, which
  launches the interface: telemetry login and initialisation, the check that the
  model file exists, and loading the model. \<open>Serving\<close> means the interface was
  launched and requests are accepted.
\<close>

definition startup :: "env \<Rightarrow> world \<Rightarrow> startup_outcome \<times> world" where
  "startup e w0 =
     (case (case getenv e ''WANDB_API_KEY'' of
              None \<Rightarrow> None
            | Some key \<Rightarrow> if key = [] then None else wandb_login e key) of
        Some x \<Rightarrow> (Terminated (Exception x), w0)
      | None \<Rightarrow>
          (let w1 = (case wandb_init e of
                       None \<Rightarrow> w0
                     | Some x \<Rightarrow>
                         print_stderr (''Warning: Failed to initialize wandb. '' @ exc_str x) w0)
           in if \<not> path_exists e LOCAL_MODEL_PATH then
                (Terminated (SystemExit 1),
                 print_stderr ''Please ensure the model file is copied into the container.''
                   (print_stderr (''Error: Local model path '' @ [CHR 0x27] @ LOCAL_MODEL_PATH
                        @ [CHR 0x27] @ '' not found.'') w1))
              else
                (let w2 = print_stdout (''Loading local model from '' @ LOCAL_MODEL_PATH @ ''...'') w1
                 in case Llama e LOCAL_MODEL_PATH 2048 40 of
                      Some x \<Rightarrow>
                        (Terminated (SystemExit 1),
                         print_stderr (''Error loading local model: '' @ exc_str x) w2)
                    | None \<Rightarrow>
                        (Serving,
                         print_stdout ''Model loaded successfully with GPU acceleration.'' w2))))"

section \<open>The analyzer: \<^verbatim>\<open>ensure_tool\<close> and \<^verbatim>\<open>run_cppcheck\<close>\<close>

definition ensure_tool :: "env \<Rightarrow> string \<Rightarrow> world \<Rightarrow> (raised + unit) \<times> world" where
  "ensure_tool e name w =
     (if which e name = None then
        (Inl (SystemExit 1),
         print_stderr (''Error: `'' @ name @ ''` not found. Please install it and retry.'') w)
      else (Inr (), w))"

text \<open>
  \<^verbatim>\<open>tempfile.NamedTemporaryFile(mode='w+', delete=..., suffix=...)\<close>: creates an empty
  file under a new name and returns its path. Leaving the \<^verbatim>\<open>with\<close> block closes the
  file, which removes it exactly when \<^verbatim>\<open>delete\<close> is true.
\<close>

definition NamedTemporaryFile :: "env \<Rightarrow> string \<Rightarrow> world \<Rightarrow> string \<times> world" where
  "NamedTemporaryFile e suffix w =
     (let path = tmp_stem e (tmp_count w) @ suffix
      in (path, w\<lparr>files := (files w)(path \<mapsto> []), tmp_count := Suc (tmp_count w)\<rparr>))"

definition tmp_exit :: "bool \<Rightarrow> string \<Rightarrow> world \<Rightarrow> world" where
  "tmp_exit delete path w = (if delete then w\<lparr>files := (files w)(path := None)\<rparr> else w)"

definition file_write :: "string \<Rightarrow> string \<Rightarrow> world \<Rightarrow> world" where
  "file_write path content w = w\<lparr>files := (files w)(path \<mapsto> content)\<rparr>"

definition file_read :: "world \<Rightarrow> string \<Rightarrow> string" where
  "file_read w path = (case files w path of None \<Rightarrow> [] | Some content \<Rightarrow> content)"

text \<open>
  \<^verbatim>\<open>elem.iter()\<close>: the element and its descendants in document order.
  \<^verbatim>\<open>root.findall(".//tag")\<close>: the proper descendants with that tag, in that order.
  \<^verbatim>\<open>elem.find(tag)\<close>: the first child with that tag. \<^verbatim>\<open>elem.get(key)\<close>: the
  attribute, or \<^verbatim>\<open>None\<close>.
\<close>

fun iter :: "xml \<Rightarrow> xml list" where
  "iter (Element t a cs) = Element t a cs # concat (map iter cs)"

definition findall_descendants :: "string \<Rightarrow> xml \<Rightarrow> xml list" where
  "findall_descendants t root = filter (\<lambda>x. tag x = t) (concat (map iter (children root)))"

definition find_child :: "string \<Rightarrow> xml \<Rightarrow> xml option" where
  "find_child t elem = List.find (\<lambda>x. tag x = t) (children elem)"

definition get :: "xml \<Rightarrow> string \<Rightarrow> string option" where
  "get elem key = map_of (attrib elem) key"

text \<open>The dictionary built for one issue; every key is always present.\<close>

record issue =
  i_severity :: "string option"
  i_id :: "string option"
  i_msg :: "string option"
  i_verbose :: "string option"
  i_file :: "string option"
  i_line :: "string option"
  i_column :: "string option"

definition make_issue :: "xml \<Rightarrow> xml \<Rightarrow> issue" where
  "make_issue error_element location =
     \<lparr>i_severity = get error_element ''severity'',
      i_id = get error_element ''id'',
      i_msg = get error_element ''msg'',
      i_verbose = get error_element ''verbose'',
      i_file = get location ''file'',
      i_line = get location ''line'',
      i_column = get location ''column''\<rparr>"

text \<open>The \<^verbatim>\<open>for error_element in ...\<close> loop, appending to \<^verbatim>\<open>issues\<close>.\<close>

fun extract_issues :: "xml list \<Rightarrow> issue list \<Rightarrow> issue list" where
  "extract_issues [] issues = issues"
| "extract_issues (error_element # rest) issues =
     (case find_child ''location'' error_element of
        None \<Rightarrow> extract_issues rest issues
      | Some location \<Rightarrow> extract_issues rest (issues @ [make_issue error_element location]))"

definition lang_args :: "string \<Rightarrow> string list" where
  "lang_args filename =
     (if endswith filename ''.c'' then [''--std=c99'', ''--language=c'', ''--addon=misra'']
      else [''--std=c++17'', ''--language=c++'', ''--profile=misra-cpp-2012''])"

text \<open>
  The handler \<^verbatim>\<open>except (subprocess.CalledProcessError, ET.ParseError)\<close>: it prints the
  exception and the raw report and lets the function return the issues collected
  so far, which are none, since only \<^verbatim>\<open>subprocess.run\<close> and \<^verbatim>\<open>ET.parse\<close> raise and
  both precede the loop. Any other exception leaves the function.
\<close>

definition cppcheck_except :: "exc \<Rightarrow> string \<Rightarrow> world \<Rightarrow> (raised + issue list) \<times> world" where
  "cppcheck_except x xml_file_path w =
     (if exc_cls x = ''CalledProcessError'' \<or> exc_cls x = ''ParseError'' then
        (Inr [],
         print_stderr (''Raw cppcheck XML output:'' @ NL @ file_read w xml_file_path)
           (print_stderr
              (''An error occurred during cppcheck execution or XML parsing: '' @ exc_str x) w))
      else (Inl (Exception x), w))"

text \<open>The body of the \<^verbatim>\<open>with\<close> block, given the paths of the two temporary files.\<close>

definition cppcheck_with_files ::
  "env \<Rightarrow> string \<Rightarrow> pyname \<Rightarrow> string \<Rightarrow> string \<Rightarrow> world \<Rightarrow> (raised + issue list) \<times> world" where
  "cppcheck_with_files e source_code filename src_file_path xml_file_path w0 =
     (let w1 = file_write src_file_path source_code w0
      in case filename of
           OtherName x \<Rightarrow> (Inl (Exception x), w1)
         | StrName f \<Rightarrow>
             (let cmd = [''cppcheck'', ''--enable=all'', ''--xml''] @ lang_args f @ [src_file_path];
                  w2 = w1\<lparr>analyzer_runs := analyzer_runs w1 @ [cmd]\<rparr>
              in case subprocess_run e cmd (files w2) of
                   Inl x \<Rightarrow> cppcheck_except x xml_file_path w2
                 | Inr cp \<Rightarrow>
                     (let w3 = file_write xml_file_path (stderr_text cp) w2
                      in case ET_parse e (file_read w3 xml_file_path) of
                           Inl x \<Rightarrow> cppcheck_except x xml_file_path w3
                         | Inr root \<Rightarrow>
                             (Inr (extract_issues (findall_descendants ''error'' root) []), w3))))"

definition run_cppcheck ::
  "env \<Rightarrow> string \<Rightarrow> pyname \<Rightarrow> world \<Rightarrow> (raised + issue list) \<times> world" where
  "run_cppcheck e source_code filename w0 =
     (case ensure_tool e ''cppcheck'' w0 of
        (Inl x, w1) \<Rightarrow> (Inl x, w1)
      | (Inr u, w1) \<Rightarrow>
          (let (src_file_path, w2) = NamedTemporaryFile e ''.c'' w1;
               (xml_file_path, w3) = NamedTemporaryFile e ''.xml'' w2;
               (r, w4) = cppcheck_with_files e source_code filename src_file_path xml_file_path w3
           in (r, tmp_exit False src_file_path (tmp_exit False xml_file_path w4))))"

section \<open>The prompt: \<^verbatim>\<open>build_prompt\<close>\<close>

text \<open>One entry of the summary, the f-string of the list comprehension.\<close>

definition issue_line :: "issue \<Rightarrow> string" where
  "issue_line issue =
     ''- '' @ pyformat (i_file issue) @ '':'' @ pyformat (i_line issue) @ '':''
       @ pyformat (i_column issue) @ '' '' @ pyformat (i_severity issue) @ '': ''
       @ pyformat (i_msg issue) @ '' ('' @ pyformat (i_id issue) @ '')''"

text \<open>
  The triple-quoted f-string. The source file holds the two characters U+00E2 and
  U+20AC between \<^verbatim>\<open>one\<close> and \<^verbatim>\<open>sentence\<close>; they are the five bytes below.
\<close>

definition prompt_template :: "string \<Rightarrow> string \<Rightarrow> string \<Rightarrow> string" where
  "prompt_template source_code rule_set summary =
     NL @ ''[INST] You are a ''
       @ (if is_in ''C:2012'' rule_set then ''C expert'' else ''C++ expert'')
       @ '' specializing in '' @ rule_set @ '' compliance.'' @ NL
       @ ''Here is the source file:'' @ NL
       @ ''```'' @ NL
       @ source_code @ NL
       @ ''```'' @ NL
       @ ''The static analyzer reported the following violations:'' @ NL
       @ summary @ NL
       @ ''Produce a unified diff patch that fixes all violations. For each change, include a one''
       @ [CHR 0xC3, CHR 0xA2, CHR 0xE2, CHR 0x82, CHR 0xAC]
       @ ''sentence rationale referencing the violated rule number.'' @ NL
       @ ''Only return the diff. No extra commentary. [/INST]'' @ NL"

definition build_prompt :: "string \<Rightarrow> pyname \<Rightarrow> issue list \<Rightarrow> raised + string option" where
  "build_prompt source_code filename issues =
     (if issues = [] then Inr None
      else
        (let summary = join NL (map issue_line issues)
         in case filename of
              OtherName x \<Rightarrow> Inl (Exception x)
            | StrName f \<Rightarrow>
                (let rule_set = (if endswith f ''.c'' then ''MISRA C:2012'' else ''MISRA C++:2012'')
                 in Inr (Some (strip (prompt_template source_code rule_set summary))))))"

section \<open>The model: \<^verbatim>\<open>predict_patch\<close>\<close>

text \<open>
  The \<^verbatim>\<open>try\<close> block calls the model, takes the text of the first choice, records
  prompt and patch with the telemetry client and returns the patch. The handler
  prints whatever was raised in the block and raises it again.
\<close>

definition predict_patch_try :: "env \<Rightarrow> string \<Rightarrow> world \<Rightarrow> (exc + string) \<times> world" where
  "predict_patch_try e prompt w0 =
     (let w1 = w0\<lparr>llm_calls := llm_calls w0 @ [prompt]\<rparr>
      in case llm e prompt 512 [''[INST]''] False of
           Inl x \<Rightarrow> (Inl x, w1)
         | Inr response \<Rightarrow>
             (case choices response of
                [] \<Rightarrow> (Inl (Exc ''IndexError'' ''list index out of range''), w1)
              | patch # others \<Rightarrow>
                  (case wandb_log e prompt patch of
                     Some x \<Rightarrow> (Inl x, w1)
                   | None \<Rightarrow>
                       (Inr patch, w1\<lparr>wandb_logged := wandb_logged w1 @ [(prompt, patch)]\<rparr>))))"

definition predict_patch :: "env \<Rightarrow> string \<Rightarrow> world \<Rightarrow> (raised + string) \<times> world" where
  "predict_patch e prompt w0 =
     (case predict_patch_try e prompt w0 of
        (Inr patch, w1) \<Rightarrow> (Inr patch, w1)
      | (Inl x, w1) \<Rightarrow>
          (Inl (Exception x),
           print_stderr (''Error during local model inference: '' @ exc_str x) w1))"

section \<open>The pipeline: \<^verbatim>\<open>process_file\<close>\<close>

text \<open>The \<^verbatim>\<open>try\<close> block that reads the upload, by path or from the object.\<close>

definition read_upload :: "env \<Rightarrow> upload \<Rightarrow> exc + string" where
  "read_upload e file_obj =
     (case obj_name file_obj of
        StrName path \<Rightarrow> open_read e path
      | OtherName x \<Rightarrow> obj_read file_obj)"

definition process_file ::
  "env \<Rightarrow> upload option \<Rightarrow> world \<Rightarrow> (raised + string \<times> string option) \<times> world" where
  "process_file e file_obj w0 =
     (case file_obj of
        None \<Rightarrow> (Inr (''Error: No file uploaded.'', None), w0)
      | Some f \<Rightarrow>
          (let filename = obj_name f
           in case read_upload e f of
                Inl x \<Rightarrow> (Inr (''Failed to read file: '' @ exc_str x, None), w0)
              | Inr src \<Rightarrow>
                  if src = [] then
                    (Inr (''Error: The uploaded file appears to be empty.'', None), w0)
                  else
                    (case run_cppcheck e src filename w0 of
                       (Inl x, w1) \<Rightarrow> (Inl x, w1)
                     | (Inr issues, w1) \<Rightarrow>
                         (case build_prompt src filename issues of
                            Inl x \<Rightarrow> (Inl x, w1)
                          | Inr None \<Rightarrow> (Inr (''No MISRA violations found.'', None), w1)
                          | Inr (Some prompt) \<Rightarrow>
                              (case predict_patch e prompt w1 of
                                 (Inr patch, w2) \<Rightarrow>
                                   (Inr (''Patch generated below:'', Some patch), w2)
                               | (Inl (Exception x), w2) \<Rightarrow>
                                   (Inr (''An error occurred during local model inference: ''
                                           @ exc_str x, None), w2)
                               | (Inl (SystemExit n), w2) \<Rightarrow> (Inl (SystemExit n), w2))))))"

section \<open>Notions used to state the properties\<close>

text \<open>
  The lines of a text: the pieces between its newline characters, as
  \<^verbatim>\<open>s.split("\n")\<close> returns them.
\<close>

fun text_lines :: "string \<Rightarrow> string list" where
  "text_lines [] = [[]]"
| "text_lines (c # cs) =
     (if c = CHR 0x0A then [] # text_lines cs
      else (case text_lines cs of [] \<Rightarrow> [[c]] | l # ls \<Rightarrow> (c # l) # ls))"

text \<open>The lines of the prompt that \<^verbatim>\<open>build_prompt\<close> returns, none if it returns no prompt.\<close>

definition prompt_lines :: "string \<Rightarrow> pyname \<Rightarrow> issue list \<Rightarrow> string list" where
  "prompt_lines source_code filename issues =
     (case build_prompt source_code filename issues of
        Inr (Some prompt) \<Rightarrow> text_lines prompt
      | Inr None \<Rightarrow> []
      | Inl x \<Rightarrow> [])"

text \<open>The first line of the prompt, which names the rule set chosen from the file name.\<close>

definition inst_line :: "string \<Rightarrow> string" where
  "inst_line f =
     (if endswith f ''.c'' then ''[INST] You are a C expert specializing in MISRA C:2012 compliance.''
      else ''[INST] You are a C++ expert specializing in MISRA C++:2012 compliance.'')"

definition rationale_line :: string where
  "rationale_line =
     ''Produce a unified diff patch that fixes all violations. For each change, include a one''
       @ [CHR 0xC3, CHR 0xA2, CHR 0xE2, CHR 0x82, CHR 0xAC]
       @ ''sentence rationale referencing the violated rule number.''"

text \<open>The prompt without the newline that opens and the newline that closes the template.\<close>

definition prompt_body :: "string \<Rightarrow> string \<Rightarrow> string \<Rightarrow> string" where
  "prompt_body source_code f summary =
     inst_line f @ NL @ ''Here is the source file:'' @ NL @ ''```'' @ NL @ source_code @ NL
       @ ''```'' @ NL @ ''The static analyzer reported the following violations:'' @ NL
       @ summary @ NL @ rationale_line @ NL
       @ ''Only return the diff. No extra commentary. [/INST]''"

text \<open>
  The call of the analyzer that \<^verbatim>\<open>run_cppcheck\<close> makes for a source text and a file
  name in a world: the command line, and the files the analyzer finds (the two
  temporary files, the first holding the source).
\<close>

definition analyzer_invocation ::
  "env \<Rightarrow> string \<Rightarrow> string \<Rightarrow> world \<Rightarrow> exc + completed_process" where
  "analyzer_invocation e source_code f w =
     (let (src_file_path, w2) = NamedTemporaryFile e ''.c'' w;
          (xml_file_path, w3) = NamedTemporaryFile e ''.xml'' w2;
          w4 = file_write src_file_path source_code w3
      in subprocess_run e
           ([''cppcheck'', ''--enable=all'', ''--xml''] @ lang_args f @ [src_file_path])
           (files w4))"

text \<open>
  An error element has a location sub-node when one of its children is tagged
  \<^verbatim>\<open>location\<close>. The finding of an error element takes severity, id, msg and verbose
  from the element and file, line and column from its first location child; an
  element without one has no finding.
\<close>

definition has_location :: "xml \<Rightarrow> bool" where
  "has_location error_element = (\<exists>c \<in> set (children error_element). tag c = ''location'')"

definition finding_of :: "xml \<Rightarrow> issue option" where
  "finding_of error_element =
     (case find_child ''location'' error_element of
        None \<Rightarrow> None
      | Some location \<Rightarrow>
          Some \<lparr>i_severity = get error_element ''severity'',
                i_id = get error_element ''id'',
                i_msg = get error_element ''msg'',
                i_verbose = get error_element ''verbose'',
                i_file = get location ''file'',
                i_line = get location ''line'',
                i_column = get location ''column''\<rparr>)"


section \<open>Sample inputs\<close>

text \<open>
  A report with one located error and one without location, the text it is parsed
  from, and a report without errors.
\<close>

definition dq :: "string \<Rightarrow> string" where
  "dq s = [CHR 0x22] @ s @ [CHR 0x22]"

definition sample_report_text :: string where
  "sample_report_text =
     ''<results version='' @ dq ''2'' @ ''><errors>''
       @ ''<error id='' @ dq ''misra-c2012-8.4'' @ '' severity='' @ dq ''style''
       @ '' msg='' @ dq ''no previous declaration''
       @ '' verbose='' @ dq ''no previous declaration'' @ ''>''
       @ ''<location file='' @ dq ''/tmp/tmpx.c'' @ '' line='' @ dq ''1''
       @ '' column='' @ dq ''5'' @ ''/></error>''
       @ ''<error id='' @ dq ''missingIncludeSystem'' @ '' severity='' @ dq ''information''
       @ '' msg='' @ dq ''include not found'' @ '' verbose='' @ dq ''include not found''
       @ ''/></errors></results>''"

definition sample_report :: xml where
  "sample_report =
     Element ''results'' [(''version'', ''2'')]
       [Element ''errors'' []
          [Element ''error''
             [(''id'', ''misra-c2012-8.4''), (''severity'', ''style''),
              (''msg'', ''no previous declaration''), (''verbose'', ''no previous declaration'')]
             [Element ''location''
                [(''file'', ''/tmp/tmpx.c''), (''line'', ''1''), (''column'', ''5'')] []],
           Element ''error''
             [(''id'', ''missingIncludeSystem''), (''severity'', ''information''),
              (''msg'', ''include not found''), (''verbose'', ''include not found'')]
             []]]"

definition clean_report_text :: string where
  "clean_report_text = ''<results version='' @ dq ''2'' @ ''><errors/></results>''"

definition clean_report :: xml where
  "clean_report = Element ''results'' [(''version'', ''2'')] [Element ''errors'' [] []]"

definition sample_patch :: string where
  "sample_patch = ''--- a.c'' @ NL @ ''+++ a.c'' @ NL @ ''@@ -1 +1 @@'' @ NL
     @ ''-int x;'' @ NL @ ''+static int x;'' @ NL"

text \<open>
  An environment in which everything works: the analyzer is installed and writes
  the sample report, the model file is present, the model returns a patch.
\<close>

definition env_ok :: env where
  "env_ok =
     \<lparr>getenv = (\<lambda>k. None),
      path_exists = (\<lambda>p. p = LOCAL_MODEL_PATH),
      which = (\<lambda>n. if n = ''cppcheck'' then Some ''/usr/bin/cppcheck'' else None),
      wandb_login = (\<lambda>k. None),
      wandb_init = None,
      wandb_log = (\<lambda>p t. None),
      Llama = (\<lambda>p c g. None),
      llm = (\<lambda>p n s ec. Inr (Completion [sample_patch])),
      open_read = (\<lambda>p. if p = ''a.c'' then Inr ''int x;''
                        else if p = ''empty.c'' then Inr []
                        else Inl (Exc ''FileNotFoundError'' ''No such file or directory'')),
      tmp_stem = (\<lambda>n. ''/tmp/tmp'' @ replicate (Suc n) (CHR ''x'')),
      subprocess_run = (\<lambda>cmd fs. Inr \<lparr>returncode = 0, stdout_text = ''Checking'',
                                         stderr_text = sample_report_text\<rparr>),
      ET_parse = (\<lambda>s. if s = sample_report_text then Inr sample_report
                       else if s = clean_report_text then Inr clean_report
                       else Inl (Exc ''ParseError'' ''syntax error: line 1, column 0''))\<rparr>"

text \<open>The same with the analyzer not installed, with an analyzer that reports
  nothing, with one that crashes, with a model that raises, and with a model that
  returns the empty text.\<close>

definition env_no_tool :: env where
  "env_no_tool = env_ok\<lparr>which := (\<lambda>n. None)\<rparr>"

definition env_clean :: env where
  "env_clean =
     env_ok\<lparr>subprocess_run := (\<lambda>cmd fs. Inr \<lparr>returncode = 0, stdout_text = ''Checking'',
                                                stderr_text = clean_report_text\<rparr>)\<rparr>"

definition env_crash :: env where
  "env_crash =
     env_ok\<lparr>subprocess_run := (\<lambda>cmd fs. Inr \<lparr>returncode = 139, stdout_text = [],
                                                stderr_text = ''Segmentation fault''\<rparr>)\<rparr>"

definition env_model_raises :: env where
  "env_model_raises =
     env_ok\<lparr>llm := (\<lambda>p n s ec. Inl (Exc ''RuntimeError'' ''llama_decode returned -1''))\<rparr>"


definition world0 :: world where
  "world0 =
     \<lparr>files = Map.empty, tmp_count = 0, analyzer_runs = [], llm_calls = [],
      wandb_logged = [], stdout = [], stderr = []\<rparr>"

definition upload_a :: upload where
  "upload_a = \<lparr>obj_name = StrName ''a.c'', obj_read = Inr ''int x;''\<rparr>"

definition upload_empty :: upload where
  "upload_empty = \<lparr>obj_name = StrName ''empty.c'', obj_read = Inr []\<rparr>"



text \<open>The finding of the example scenario, and one whose message spans two lines.\<close>

definition example_issue :: issue where
  "example_issue =
     \<lparr>i_severity = Some ''style'', i_id = Some ''misra-c2012-8.4'',
      i_msg = Some ''no previous declaration'', i_verbose = Some ''no previous declaration'',
      i_file = Some ''a.c'', i_line = Some ''1'', i_column = Some ''1''\<rparr>"

definition two_line_issue :: issue where
  "two_line_issue = example_issue\<lparr>i_msg := Some (''no previous'' @ NL @ ''declaration'')\<rparr>"

text \<open>The finding that the sample report yields, and the prompt built from it.\<close>

definition sample_issue :: issue where
  "sample_issue =
     \<lparr>i_severity = Some ''style'', i_id = Some ''misra-c2012-8.4'',
      i_msg = Some ''no previous declaration'', i_verbose = Some ''no previous declaration'',
      i_file = Some ''/tmp/tmpx.c'', i_line = Some ''1'', i_column = Some ''5''\<rparr>"

definition sample_prompt :: string where
  "sample_prompt = prompt_body ''int x;'' ''a.c'' (issue_line sample_issue)"

section \<open>Auxiliary facts\<close>

lemmas sample_defs = env_ok_def world0_def upload_a_def

lemmas run_defs = run_cppcheck_def ensure_tool_def cppcheck_with_files_def cppcheck_except_def
  NamedTemporaryFile_def tmp_exit_def file_write_def file_read_def print_stderr_def
  print_stdout_def lang_args_def endswith_def Let_def

lemmas pipe_defs = process_file_def read_upload_def build_prompt_def predict_patch_def
  predict_patch_try_def

subsection \<open>The loop over the error elements\<close>

lemma extract_issues_acc:
  "extract_issues es acc = acc @ List.map_filter finding_of es"
  by (induction es arbitrary: acc)
     (auto simp: finding_of_def make_issue_def split: option.splits)

lemma find_child_has_location:
  "(find_child ''location'' el = None) = (\<not> has_location el)"
  by (auto simp: find_child_def has_location_def find_None_iff)

lemma finding_of_None: "(finding_of el = None) = (\<not> has_location el)"
  by (simp add: finding_of_def find_child_has_location [symmetric] split: option.splits)

lemma length_map_filter:
  "length (List.map_filter f xs) = length (filter (\<lambda>x. f x \<noteq> None) xs)"
  by (simp add: List.map_filter_def)

subsection \<open>What \<^verbatim>\<open>run_cppcheck\<close> does to the world\<close>

lemma run_cppcheck_no_tool:
  "which e ''cppcheck'' = None \<Longrightarrow>
   run_cppcheck e s n w =
     (Inl (SystemExit 1),
      print_stderr ''Error: `cppcheck` not found. Please install it and retry.'' w)"
  by (simp add: run_cppcheck_def ensure_tool_def)

lemma cppcheck_except_llm_calls:
  "cppcheck_except x p w = (r, w') \<Longrightarrow> llm_calls w' = llm_calls w"
  by (auto simp: cppcheck_except_def print_stderr_def split: if_splits)

lemma cppcheck_with_files_llm_calls:
  "cppcheck_with_files e s n p q w = (r, w') \<Longrightarrow> llm_calls w' = llm_calls w"
  by (auto simp: cppcheck_with_files_def file_write_def Let_def
           dest!: cppcheck_except_llm_calls split: pyname.splits sum.splits)

lemma run_cppcheck_llm_calls:
  "run_cppcheck e s n w = (r, w') \<Longrightarrow> llm_calls w' = llm_calls w"
  by (auto simp: run_cppcheck_def ensure_tool_def print_stderr_def NamedTemporaryFile_def
                 tmp_exit_def Let_def
           dest!: cppcheck_with_files_llm_calls split: if_splits prod.splits)


lemma run_cppcheck_parsed:
  assumes tool: "which e ''cppcheck'' \<noteq> None"
    and run: "analyzer_invocation e s f w = Inr cp"
    and parse: "ET_parse e (stderr_text cp) = Inr root"
  shows "fst (run_cppcheck e s (StrName f) w) =
           Inr (extract_issues (findall_descendants ''error'' root) [])"
  using tool run parse
  by (simp add: run_cppcheck_def ensure_tool_def cppcheck_with_files_def NamedTemporaryFile_def
        analyzer_invocation_def file_write_def file_read_def Let_def split: prod.splits)

lemma run_cppcheck_no_errors:
  assumes "which e ''cppcheck'' \<noteq> None"
    and "analyzer_invocation e s f w = Inr cp"
    and "ET_parse e (stderr_text cp) = Inr root"
    and "findall_descendants ''error'' root = []"
  shows "fst (run_cppcheck e s (StrName f) w) = Inr []"
  using run_cppcheck_parsed [OF assms(1-3)] assms(4) by simp

text \<open>The two temporary paths differ, whatever the names handed out.\<close>

lemma suffix_c_xml: "a @ ''.c'' \<noteq> b @ ''.xml''"
proof
  assume "a @ ''.c'' = b @ ''.xml''"
  then have "last (a @ ''.c'') = last (b @ ''.xml'')" by (rule arg_cong)
  then show False by simp
qed

lemma cppcheck_except_files:
  "cppcheck_except x p w = (r, w') \<Longrightarrow> files w' = files w"
  by (auto simp: cppcheck_except_def print_stderr_def split: if_splits)

lemma cppcheck_with_files_keeps:
  assumes "cppcheck_with_files e s n p q w = (r, w')" and "p \<noteq> q" and "files w q \<noteq> None"
  shows "files w' p = Some s \<and> files w' q \<noteq> None"
  using assms
  by (auto simp: cppcheck_with_files_def file_write_def Let_def
           dest!: cppcheck_except_files split: pyname.splits sum.splits)

text \<open>
  Once the analyzer is found, every way out of \<^verbatim>\<open>run_cppcheck\<close> (issues returned,
  report not parsed, exception passed on) leaves both temporary files in place: they
  are created with \<^verbatim>\<open>delete=False\<close> and nothing unlinks them.
\<close>

lemma run_cppcheck_files_remain:
  assumes "which e ''cppcheck'' \<noteq> None" and "run_cppcheck e s n w = (r, w')"
  shows "files w' (tmp_stem e (tmp_count w) @ ''.c'') = Some s
       \<and> files w' (tmp_stem e (Suc (tmp_count w)) @ ''.xml'') \<noteq> None"
proof -
  let ?p = "tmp_stem e (tmp_count w) @ ''.c''"
  let ?q = "tmp_stem e (Suc (tmp_count w)) @ ''.xml''"
  let ?w3 = "snd (NamedTemporaryFile e ''.xml'' (snd (NamedTemporaryFile e ''.c'' w)))"
  have body: "cppcheck_with_files e s n ?p ?q ?w3 = (r, w')"
    using assms
    by (auto simp: run_cppcheck_def ensure_tool_def NamedTemporaryFile_def tmp_exit_def Let_def
             split: prod.splits)
  have "files ?w3 ?q \<noteq> None" by (simp add: NamedTemporaryFile_def Let_def)
  with body suffix_c_xml show ?thesis by (rule cppcheck_with_files_keeps)
qed

text \<open>A temporary file opened with \<^verbatim>\<open>delete=True\<close> would be gone after the block.\<close>

lemma tmp_exit_delete: "files (tmp_exit True path w) path = None"
  by (simp add: tmp_exit_def)

subsection \<open>Exceptions in the pipeline\<close>


text \<open>
  The telemetry record is written inside the \<^verbatim>\<open>try\<close> block of \<^verbatim>\<open>predict_patch\<close>:
  when it raises, the completion the model returned is dropped and the exception is
  reported like a failure of the model.
\<close>

lemma predict_patch_telemetry_raises:
  assumes "llm e prompt 512 [''[INST]''] False = Inr response"
    and "choices response = patch # others"
    and "wandb_log e prompt patch = Some x"
  shows "fst (predict_patch e prompt w) = Inl (Exception x)"
  using assms by (simp add: predict_patch_def predict_patch_try_def)




lemma startup_ignores_which: "startup (e\<lparr>which := wh\<rparr>) w = startup e w"
  by (simp add: startup_def cong: option.case_cong if_cong)

subsection \<open>Lines\<close>

lemma text_lines_nonempty: "text_lines s \<noteq> []"
  by (induction s) (auto split: list.splits)

lemma text_lines_single: "CHR 0x0A \<notin> set s \<Longrightarrow> text_lines s = [s]"
  by (induction s) auto

lemma text_lines_append_newline:
  "text_lines (a @ CHR 0x0A # b) = text_lines a @ text_lines b"
proof (induction a)
  case Nil
  show ?case by simp
next
  case (Cons c a)
  obtain l ls where "text_lines a = l # ls"
    using text_lines_nonempty [of a] by (cases "text_lines a") auto
  with Cons show ?case by simp
qed

lemma text_lines_append_NL: "text_lines (a @ NL @ b) = text_lines a @ text_lines b"
  by (simp add: NL_def text_lines_append_newline)

lemma text_lines_join:
  "xs \<noteq> [] \<Longrightarrow> \<forall>x \<in> set xs. CHR 0x0A \<notin> set x \<Longrightarrow> text_lines (join NL xs) = xs"
proof (induction NL xs rule: join.induct)
  case 1
  then show ?case by simp
next
  case (2 x)
  then show ?case by (simp add: text_lines_single)
next
  case (3 x y ys)
  then show ?case by (simp add: text_lines_append_NL text_lines_single)
qed

subsection \<open>The prompt in closed form\<close>

text \<open>Stripping the template removes its first and its last newline and nothing else.\<close>

lemma strip_bracketed:
  "strip (NL @ CHR ''['' # s @ '']'' @ NL) = CHR ''['' # s @ '']''"
  by (simp add: strip_def NL_def isspace_def)

lemma is_in_rule_set:
  "is_in ''C:2012'' ''MISRA C:2012''" "\<not> is_in ''C:2012'' ''MISRA C++:2012''"
  by (simp_all add: startswith_def)

lemma build_prompt_body:
  assumes ne: "issues \<noteq> []"
  shows "build_prompt source_code (StrName f) issues =
           Inr (Some (prompt_body source_code f (join NL (map issue_line issues))))"
proof -
  let ?sm = "join NL (map issue_line issues)"
  let ?rs = "if endswith f ''.c'' then ''MISRA C:2012'' else ''MISRA C++:2012''"
  have "\<exists>s. prompt_template source_code ?rs ?sm = NL @ CHR ''['' # s @ '']'' @ NL
          \<and> prompt_body source_code f ?sm = CHR ''['' # s @ '']''"
    by (cases "endswith f ''.c''")
       (simp_all add: prompt_template_def prompt_body_def inst_line_def rationale_line_def
          is_in_rule_set del: is_in.simps)
  then obtain s where "prompt_template source_code ?rs ?sm = NL @ CHR ''['' # s @ '']'' @ NL"
    and "prompt_body source_code f ?sm = CHR ''['' # s @ '']''" by blast
  then have "strip (prompt_template source_code ?rs ?sm) = prompt_body source_code f ?sm"
    by (simp only: strip_bracketed)
  with ne show ?thesis by (simp add: build_prompt_def Let_def)
qed

lemma fixed_lines:
  "text_lines (inst_line f) = [inst_line f]"
  "text_lines ''Here is the source file:'' = [''Here is the source file:'']"
  "text_lines ''```'' = [''```'']"
  "text_lines ''The static analyzer reported the following violations:''
     = [''The static analyzer reported the following violations:'']"
  "text_lines rationale_line = [rationale_line]"
  "text_lines ''Only return the diff. No extra commentary. [/INST]''
     = [''Only return the diff. No extra commentary. [/INST]'']"
  by (simp_all add: inst_line_def rationale_line_def)

lemma text_lines_prompt_body:
  "text_lines (prompt_body source_code f summary) =
     [inst_line f, ''Here is the source file:'', ''```''] @ text_lines source_code
       @ [''```'', ''The static analyzer reported the following violations:'']
       @ text_lines summary
       @ [rationale_line, ''Only return the diff. No extra commentary. [/INST]'']"
  unfolding prompt_body_def
  by (simp only: text_lines_append_NL fixed_lines) simp

lemma prompt_lines_eq:
  assumes "issues \<noteq> []" and "\<forall>i \<in> set issues. CHR 0x0A \<notin> set (issue_line i)"
  shows "prompt_lines source_code (StrName f) issues =
           [inst_line f, ''Here is the source file:'', ''```''] @ text_lines source_code
             @ [''```'', ''The static analyzer reported the following violations:'']
             @ map issue_line issues
             @ [rationale_line, ''Only return the diff. No extra commentary. [/INST]'']"
proof -
  have "text_lines (join NL (map issue_line issues)) = map issue_line issues"
    using assms by (intro text_lines_join) auto
  with assms(1) show ?thesis
    by (simp add: prompt_lines_def build_prompt_body text_lines_prompt_body)
qed

lemma example_line:
  "issue_line example_issue = ''- a.c:1:1 style: no previous declaration (misra-c2012-8.4)''"
  by (simp add: issue_line_def example_issue_def pyformat_def)

subsection \<open>The sample run\<close>

lemma sample_run:
  "fst (run_cppcheck (env_ok\<lparr>llm := l\<rparr>) ''int x;'' (StrName ''a.c'') world0) = Inr [sample_issue]"
  by (simp add: sample_defs run_defs sample_report_def findall_descendants_def find_child_def
        make_issue_def get_def sample_issue_def)

lemma sample_build:
  "build_prompt ''int x;'' (StrName ''a.c'') [sample_issue] = Inr (Some sample_prompt)"
  by (simp add: build_prompt_body sample_prompt_def)

section \<open>The claims\<close>

subsection \<open>C1: the temporary files\<close>

text \<open>
  Claim C1: every call of \<^verbatim>\<open>run_cppcheck\<close> removes the two temporary files (source
  buffer and captured report) before it returns, on every exit path. The comments
  and the docstring of the function say so as well. The function does not: for the
  source \<^verbatim>\<open>int x;\<close> named \<^verbatim>\<open>a.c\<close>, with the analyzer installed, both files are still
  there when the call has returned its issues, the first holding the source and the
  second the report; and they are still there when the analyzer has crashed and the
  call has returned no issue.
\<close>

theorem run_cppcheck_leaves_temp_files:
  "files (snd (run_cppcheck env_ok ''int x;'' (StrName ''a.c'') world0)) ''/tmp/tmpx.c''
     = Some ''int x;''
   \<and> files (snd (run_cppcheck env_ok ''int x;'' (StrName ''a.c'') world0)) ''/tmp/tmpxx.xml''
     = Some sample_report_text
   \<and> fst (run_cppcheck env_crash ''int x;'' (StrName ''a.c'') world0) = Inr []
   \<and> files (snd (run_cppcheck env_crash ''int x;'' (StrName ''a.c'') world0)) ''/tmp/tmpx.c''
     = Some ''int x;''
   \<and> files (snd (run_cppcheck env_crash ''int x;'' (StrName ''a.c'') world0)) ''/tmp/tmpxx.xml''
     = Some ''Segmentation fault''"
proof -
  have ok: "files (snd (run_cppcheck env_ok ''int x;'' (StrName ''a.c'') world0)) ''/tmp/tmpx.c''
              = Some ''int x;''
    \<and> files (snd (run_cppcheck env_ok ''int x;'' (StrName ''a.c'') world0)) ''/tmp/tmpxx.xml''
              = Some sample_report_text"
    by (simp add: sample_defs run_defs)
  have crash: "fst (run_cppcheck env_crash ''int x;'' (StrName ''a.c'') world0) = Inr []
    \<and> files (snd (run_cppcheck env_crash ''int x;'' (StrName ''a.c'') world0)) ''/tmp/tmpx.c''
              = Some ''int x;''
    \<and> files (snd (run_cppcheck env_crash ''int x;'' (StrName ''a.c'') world0)) ''/tmp/tmpxx.xml''
              = Some ''Segmentation fault''"
    by (simp add: env_crash_def sample_defs run_defs sample_report_text_def clean_report_text_def
          dq_def)
  from ok crash show ?thesis by simp
qed

subsection \<open>C2: the shape of the result\<close>




subsection \<open>C3: no findings, no model call\<close>

text \<open>
  Claim C3: for every analysis that yields no finding, \<^verbatim>\<open>process_file\<close> returns the
  fixed status \<^verbatim>\<open>No MISRA violations found.\<close> with no patch, and the model is not
  called (the prompts sent to the model are those sent before); \<^verbatim>\<open>build_prompt\<close> on
  the empty list returns no prompt.
\<close>

theorem no_findings_short_circuit:
  assumes "read_upload e f = Inr src" and "src \<noteq> []"
    and "run_cppcheck e src (obj_name f) w = (Inr [], w1)"
  shows "process_file e (Some f) w = (Inr (''No MISRA violations found.'', None), w1)
       \<and> llm_calls w1 = llm_calls w
       \<and> build_prompt src (obj_name f) [] = Inr None"
  using assms run_cppcheck_llm_calls [OF assms(3)]
  by (simp add: process_file_def build_prompt_def)

theorem no_findings_short_circuit_witness:
  "read_upload env_clean upload_a = Inr ''int x;''
   \<and> fst (run_cppcheck env_clean ''int x;'' (StrName ''a.c'') world0) = Inr []
   \<and> fst (process_file env_clean (Some upload_a) world0)
       = Inr (''No MISRA violations found.'', None)
   \<and> llm_calls (snd (process_file env_clean (Some upload_a) world0)) = []"
proof -
  let ?w1 = "snd (run_cppcheck env_clean ''int x;'' (obj_name upload_a) world0)"
  have rd: "read_upload env_clean upload_a = Inr ''int x;''"
    by (simp add: env_clean_def sample_defs read_upload_def)
  have ne: "''int x;'' \<noteq> []" by simp
  have fs: "fst (run_cppcheck env_clean ''int x;'' (obj_name upload_a) world0) = Inr []"
    by (simp add: env_clean_def sample_defs run_defs clean_report_def findall_descendants_def
          sample_report_text_def clean_report_text_def dq_def)
  then have an: "run_cppcheck env_clean ''int x;'' (obj_name upload_a) world0 = (Inr [], ?w1)"
    by (simp add: prod_eq_iff)
  have w0: "llm_calls world0 = []" by (simp add: world0_def)
  have nm: "obj_name upload_a = StrName ''a.c''" by (simp add: upload_a_def)
  from no_findings_short_circuit [OF rd ne an] rd fs w0 nm show ?thesis by simp
qed

subsection \<open>C4: a model that raises\<close>

text \<open>
  Claim C4: for every request in which the model raises when it is called,
  \<^verbatim>\<open>process_file\<close> returns a failure status (the fixed text followed by the message of
  the exception) with no patch; the exception does not leave the pipeline. The
  request has reached the model: the upload was read, the analyzer returned issues
  and a prompt was built from them.
\<close>

theorem model_failure_reported:
  assumes "read_upload e f = Inr src" and "src \<noteq> []"
    and "run_cppcheck e src (obj_name f) w = (Inr issues, w1)"
    and "build_prompt src (obj_name f) issues = Inr (Some prompt)"
    and "llm e prompt 512 [''[INST]''] False = Inl x"
  shows "process_file e (Some f) w =
           (Inr (''An error occurred during local model inference: '' @ exc_str x, None),
            print_stderr (''Error during local model inference: '' @ exc_str x)
              (w1\<lparr>llm_calls := llm_calls w1 @ [prompt]\<rparr>))"
  using assms by (simp add: process_file_def predict_patch_def predict_patch_try_def)

theorem model_failure_reported_witness:
  "read_upload env_model_raises upload_a = Inr ''int x;''
   \<and> llm env_model_raises sample_prompt 512 [''[INST]''] False
       = Inl (Exc ''RuntimeError'' ''llama_decode returned -1'')
   \<and> fst (process_file env_model_raises (Some upload_a) world0) =
       Inr (''An error occurred during local model inference: llama_decode returned -1'', None)"
proof -
  let ?w1 = "snd (run_cppcheck env_model_raises ''int x;'' (obj_name upload_a) world0)"
  have rd: "read_upload env_model_raises upload_a = Inr ''int x;''"
    by (simp add: env_model_raises_def sample_defs read_upload_def)
  have ne: "''int x;'' \<noteq> []" by simp
  have nm: "obj_name upload_a = StrName ''a.c''" by (simp add: upload_a_def)
  have "fst (run_cppcheck env_model_raises ''int x;'' (obj_name upload_a) world0)
          = Inr [sample_issue]"
    unfolding nm env_model_raises_def by (rule sample_run)
  then have an: "run_cppcheck env_model_raises ''int x;'' (obj_name upload_a) world0
                   = (Inr [sample_issue], ?w1)"
    by (simp add: prod_eq_iff)
  have bp: "build_prompt ''int x;'' (obj_name upload_a) [sample_issue] = Inr (Some sample_prompt)"
    unfolding nm by (rule sample_build)
  have lm: "llm env_model_raises sample_prompt 512 [''[INST]''] False
              = Inl (Exc ''RuntimeError'' ''llama_decode returned -1'')"
    by (simp add: env_model_raises_def)
  from model_failure_reported [OF rd ne an bp lm] rd lm show ?thesis by simp
qed

subsection \<open>C5: the missing analyzer\<close>

text \<open>
  Claim C5, as the code has it: the start of the module does not look for the
  analyzer (what \<^verbatim>\<open>shutil.which\<close> answers has no influence on it); the analyzer is
  looked for at the beginning of every call of \<^verbatim>\<open>run_cppcheck\<close>, and when it is
  missing that call prints an error line and exits with status 1, before any
  temporary file is created and before the analyzer is run. \<^verbatim>\<open>process_file\<close>, called
  with a readable, non-empty upload, ends in the same exit.
\<close>

theorem analyzer_checked_per_call:
  assumes "which e ''cppcheck'' = None"
  shows "startup (e\<lparr>which := wh\<rparr>) w0 = startup e w0
       \<and> run_cppcheck e source_code filename w =
           (Inl (SystemExit 1),
            print_stderr ''Error: `cppcheck` not found. Please install it and retry.'' w)
       \<and> (read_upload e f = Inr src \<and> src \<noteq> [] \<longrightarrow>
            process_file e (Some f) w =
              (Inl (SystemExit 1),
               print_stderr ''Error: `cppcheck` not found. Please install it and retry.'' w))"
  using assms by (simp add: startup_ignores_which run_cppcheck_no_tool process_file_def)

theorem analyzer_checked_per_call_witness:
  "which env_no_tool ''cppcheck'' = None
   \<and> startup (env_no_tool\<lparr>which := which env_ok\<rparr>) world0 = startup env_no_tool world0
   \<and> fst (run_cppcheck env_no_tool ''int x;'' (StrName ''a.c'') world0) = Inl (SystemExit 1)
   \<and> fst (process_file env_no_tool (Some upload_a) world0) = Inl (SystemExit 1)"
proof -
  have h: "which env_no_tool ''cppcheck'' = None" by (simp add: env_no_tool_def)
  have rd: "read_upload env_no_tool upload_a = Inr ''int x;''"
    by (simp add: env_no_tool_def sample_defs read_upload_def)
  from analyzer_checked_per_call [OF h, of "which env_ok" world0 "''int x;''" "StrName ''a.c''"
         world0 upload_a "''int x;''"] h rd
  show ?thesis by simp
qed

text \<open>
  With the analyzer missing and the model in place, the module starts and serves;
  the first request with a readable, non-empty upload then exits with status 1.
\<close>

theorem missing_analyzer_counterexample:
  "fst (startup env_no_tool world0) = Serving
   \<and> fst (process_file env_no_tool (Some upload_a) (snd (startup env_no_tool world0)))
       = Inl (SystemExit 1)"
  by (simp add: env_no_tool_def sample_defs startup_def pipe_defs run_defs)

subsection \<open>C6: no file, empty file\<close>

text \<open>
  Claim C6: when no file was supplied, or the content read from the upload is empty,
  \<^verbatim>\<open>process_file\<close> returns a status that names the error, with no patch, and the world
  is as before: no temporary file, no analyzer run, no model call.
\<close>

theorem empty_input_rejected:
  assumes "file_obj = None \<or> (\<exists>f. file_obj = Some f \<and> read_upload e f = Inr [])"
  shows "process_file e file_obj w =
           (Inr (if file_obj = None then ''Error: No file uploaded.''
                 else ''Error: The uploaded file appears to be empty.'', None), w)"
  using assms by (auto simp: process_file_def)

theorem empty_input_rejected_witness:
  "process_file env_ok None world0 = (Inr (''Error: No file uploaded.'', None), world0)
   \<and> read_upload env_ok upload_empty = Inr []
   \<and> process_file env_ok (Some upload_empty) world0 =
       (Inr (''Error: The uploaded file appears to be empty.'', None), world0)"
proof -
  have rd: "read_upload env_ok upload_empty = Inr []"
    by (simp add: upload_empty_def sample_defs read_upload_def)
  then have h: "Some upload_empty = None
              \<or> (\<exists>f. Some upload_empty = Some f \<and> read_upload env_ok f = Inr [])" by simp
  have n: "(None :: upload option) = None \<or> (\<exists>f. None = Some f \<and> read_upload env_ok f = Inr [])"
    by simp
  from empty_input_rejected [OF n, of world0] empty_input_rejected [OF h, of world0] rd
  show ?thesis by simp
qed

subsection \<open>C7: the lines of the summary\<close>

text \<open>
  Claim C7, as the code has it: for every non-empty list of findings whose rendered
  entries contain no newline, the prompt consists of the line naming the rule set,
  two fixed lines, the lines of the source, two fixed lines, then exactly one line
  per finding, in the order of the list, each of the form
  \<^verbatim>\<open>- file:line:column severity: message (rule_id)\<close> with a leading hyphen and blank
  (an absent attribute printed as \<^verbatim>\<open>None\<close>), then the two lines of the instruction.
\<close>

theorem prompt_lines_of_findings:
  assumes "issues \<noteq> []" and "\<forall>i \<in> set issues. CHR 0x0A \<notin> set (issue_line i)"
  shows "prompt_lines source_code (StrName f) issues =
           [inst_line f, ''Here is the source file:'', ''```''] @ text_lines source_code
             @ [''```'', ''The static analyzer reported the following violations:'']
             @ map (\<lambda>i. ''- '' @ pyformat (i_file i) @ '':'' @ pyformat (i_line i) @ '':''
                       @ pyformat (i_column i) @ '' '' @ pyformat (i_severity i) @ '': ''
                       @ pyformat (i_msg i) @ '' ('' @ pyformat (i_id i) @ '')'') issues
             @ [rationale_line, ''Only return the diff. No extra commentary. [/INST]'']"
proof -
  have "map issue_line issues =
          map (\<lambda>i. ''- '' @ pyformat (i_file i) @ '':'' @ pyformat (i_line i) @ '':''
                       @ pyformat (i_column i) @ '' '' @ pyformat (i_severity i) @ '': ''
                       @ pyformat (i_msg i) @ '' ('' @ pyformat (i_id i) @ '')'') issues"
    by (simp add: issue_line_def)
  with prompt_lines_eq [OF assms] show ?thesis by simp
qed

theorem prompt_lines_of_findings_witness:
  "[example_issue] \<noteq> []
   \<and> CHR 0x0A \<notin> set (issue_line example_issue)
   \<and> prompt_lines ''int x;'' (StrName ''a.c'') [example_issue] =
       [''[INST] You are a C expert specializing in MISRA C:2012 compliance.'',
        ''Here is the source file:'', ''```'', ''int x;'', ''```'',
        ''The static analyzer reported the following violations:'',
        ''- a.c:1:1 style: no previous declaration (misra-c2012-8.4)'',
        rationale_line, ''Only return the diff. No extra commentary. [/INST]'']"
proof -
  have ne: "[example_issue] \<noteq> []" by simp
  have nl: "\<forall>i \<in> set [example_issue]. CHR 0x0A \<notin> set (issue_line i)"
    by (simp add: example_line)
  from prompt_lines_of_findings [OF ne nl, of "''int x;''" "''a.c''"] ne nl
  show ?thesis by (simp add: inst_line_def endswith_def example_issue_def pyformat_def)
qed

text \<open>
  For the finding of the example scenario, no line of the prompt is the text
  \<^verbatim>\<open>a.c:1:1 style: no previous declaration (misra-c2012-8.4)\<close>: the line of the
  finding begins with a hyphen and a blank. And a finding whose message holds a
  newline takes two lines of the summary.
\<close>

theorem prompt_lines_counterexample:
  "''a.c:1:1 style: no previous declaration (misra-c2012-8.4)''
     \<notin> set (prompt_lines ''int x;'' (StrName ''a.c'') [example_issue])
   \<and> ''- a.c:1:1 style: no previous declaration (misra-c2012-8.4)''
     \<in> set (prompt_lines ''int x;'' (StrName ''a.c'') [example_issue])
   \<and> length (text_lines (join NL (map issue_line [two_line_issue]))) = 2"
proof -
  have "prompt_lines ''int x;'' (StrName ''a.c'') [example_issue] =
          [inst_line ''a.c'', ''Here is the source file:'', ''```''] @ text_lines ''int x;''
             @ [''```'', ''The static analyzer reported the following violations:'']
             @ map issue_line [example_issue]
             @ [rationale_line, ''Only return the diff. No extra commentary. [/INST]'']"
    by (rule prompt_lines_eq) (simp_all add: example_line)
  then have "prompt_lines ''int x;'' (StrName ''a.c'') [example_issue] =
          [''[INST] You are a C expert specializing in MISRA C:2012 compliance.'',
           ''Here is the source file:'', ''```'', ''int x;'', ''```'',
           ''The static analyzer reported the following violations:'',
           ''- a.c:1:1 style: no previous declaration (misra-c2012-8.4)'',
           rationale_line, ''Only return the diff. No extra commentary. [/INST]'']"
    by (simp add: example_line inst_line_def endswith_def)
  moreover have "length (text_lines (join NL (map issue_line [two_line_issue]))) = 2"
    by (simp add: two_line_issue_def example_issue_def issue_line_def pyformat_def NL_def)
  ultimately show ?thesis by (simp add: rationale_line_def)
qed

subsection \<open>C8: one finding for each located error element\<close>

text \<open>
  Claim C8: for every analyzer report, \<^verbatim>\<open>run_cppcheck\<close> produces one finding, with
  severity, id, msg, verbose, file, line and column, for exactly the error elements
  that have a location sub-node, in the order of the report; error elements without
  one are skipped, so they are neither in the list nor in the rendered summary.
  Here the analyzer is installed, its run for this source and file name completes
  with the result \<open>cp\<close>, and the report it wrote parses to \<open>root\<close>.
\<close>

theorem run_cppcheck_findings:
  assumes tool: "which e ''cppcheck'' \<noteq> None"
    and run: "analyzer_invocation e source_code f w = Inr cp"
    and parse: "ET_parse e (stderr_text cp) = Inr root"
  shows "\<exists>issues.
           fst (run_cppcheck e source_code (StrName f) w) = Inr issues
         \<and> issues = List.map_filter finding_of (findall_descendants ''error'' root)
         \<and> length issues = length (filter has_location (findall_descendants ''error'' root))
         \<and> length (map issue_line issues)
             = length (filter has_location (findall_descendants ''error'' root))"
proof -
  let ?errors = "findall_descendants ''error'' root"
  have "fst (run_cppcheck e source_code (StrName f) w) = Inr (extract_issues ?errors [])"
    using tool run parse by (rule run_cppcheck_parsed)
  moreover have "extract_issues ?errors [] = List.map_filter finding_of ?errors"
    by (simp add: extract_issues_acc)
  moreover have "length (List.map_filter finding_of ?errors) = length (filter has_location ?errors)"
    by (simp add: length_map_filter finding_of_None)
  ultimately show ?thesis by simp
qed

theorem run_cppcheck_findings_witness:
  "which env_ok ''cppcheck'' \<noteq> None
   \<and> analyzer_invocation env_ok ''int x;'' ''a.c'' world0 =
       Inr \<lparr>returncode = 0, stdout_text = ''Checking'', stderr_text = sample_report_text\<rparr>
   \<and> ET_parse env_ok sample_report_text = Inr sample_report
   \<and> length (filter has_location (findall_descendants ''error'' sample_report)) = 1
   \<and> fst (run_cppcheck env_ok ''int x;'' (StrName ''a.c'') world0) =
       Inr [\<lparr>i_severity = Some ''style'', i_id = Some ''misra-c2012-8.4'',
             i_msg = Some ''no previous declaration'',
             i_verbose = Some ''no previous declaration'',
             i_file = Some ''/tmp/tmpx.c'', i_line = Some ''1'', i_column = Some ''5''\<rparr>]"
proof -
  let ?cp = "\<lparr>returncode = 0, stdout_text = ''Checking'', stderr_text = sample_report_text\<rparr>"
  have tool: "which env_ok ''cppcheck'' \<noteq> None" by (simp add: env_ok_def)
  have run: "analyzer_invocation env_ok ''int x;'' ''a.c'' world0 = Inr ?cp"
    by (simp add: env_ok_def analyzer_invocation_def NamedTemporaryFile_def Let_def)
  have parse: "ET_parse env_ok (stderr_text ?cp) = Inr sample_report" by (simp add: env_ok_def)
  have found: "List.map_filter finding_of (findall_descendants ''error'' sample_report) =
      [\<lparr>i_severity = Some ''style'', i_id = Some ''misra-c2012-8.4'',
        i_msg = Some ''no previous declaration'',
        i_verbose = Some ''no previous declaration'',
        i_file = Some ''/tmp/tmpx.c'', i_line = Some ''1'', i_column = Some ''5''\<rparr>]"
    by (simp add: sample_report_def findall_descendants_def finding_of_def
          find_child_def get_def)
  from run_cppcheck_findings [OF tool run parse]
  show ?thesis using tool run parse found by auto
qed

subsection \<open>C10: the completion is returned as it is\<close>




end
